theory Spec2Isabelle
  imports Complex_Main "HOL-Library.Multiset"
begin

section \<open>Values of the Python program\<close>

text \<open>
  The eligibility service (\<^verbatim>\<open>backend/app/services/eligibility_service.py\<close>) asks an
  external model for one judgment per lender, parses the answer as JSON, converts it to a
  \<^verbatim>\<open>LenderMatchDTO\<close> and collects the judgments in an \<^verbatim>\<open>EligibilityResultDTO\<close>.

  The response text is a Python \<^verbatim>\<open>str\<close>: a sequence of code points, which is what
  \<^verbatim>\<open>strip\<close>, \<^verbatim>\<open>startswith\<close> and slicing count. Dictionary keys, names and the
  strings inside a parsed payload are only compared and passed on, so they are plain
  \<open>string\<close>s.
\<close>

type_synonym pystr = "nat list"

abbreviation lit :: "string \<Rightarrow> pystr" where
  "lit s \<equiv> map of_char s"

text \<open>
  What \<^verbatim>\<open>json.loads\<close> returns. A float is modelled by the real number it denotes: the
  program never computes with it, it only compares it with the literals \<^verbatim>\<open>0.5\<close>,
  \<^verbatim>\<open>0\<close> and \<^verbatim>\<open>1\<close>, and these comparisons are exact. An overflowing literal such as
  \<^verbatim>\<open>1e999\<close> is read by Python as infinity, which behaves in every comparison below like
  any real above 1. The literal \<^verbatim>\<open>NaN\<close>, which is not JSON but which \<^verbatim>\<open>json.loads\<close>
  accepts, has no counterpart here. A dict is an association list read with \<open>map_of\<close>.
\<close>

datatype json =
    JNull
  | JBool bool
  | JInt int
  | JFloat real
  | JString string
  | JArray "json list"
  | JObject "(string \<times> json) list"

text \<open>
  The exceptions that occur. The last three are the \<^verbatim>\<open>Exception(...)\<close> objects that
  the handlers of \<^verbatim>\<open>_evaluate_single_lender\<close> raise (lines 172, 177 and 181); they carry
  the lender's name.
\<close>

datatype py_exception =
    HTTPStatusError
  | JSONDecodeError
  | AttributeError
  | TypeError
  | KeyError
  | ValidationError
  | TransportError
  | UnexpectedResponseFormat
  | GeminiAPIError string
  | FailedToParse string
  | ErrorEvaluating string

subsection \<open>Python operations on parsed values\<close>

text \<open>Truth value of an object, as \<^verbatim>\<open>not x\<close> and \<^verbatim>\<open>x and y\<close> test it.\<close>

fun truthy :: "json \<Rightarrow> bool" where
  "truthy JNull = False"
| "truthy (JBool b) = b"
| "truthy (JInt i) = (i \<noteq> 0)"
| "truthy (JFloat r) = (r \<noteq> 0)"
| "truthy (JString s) = (s \<noteq> [])"
| "truthy (JArray xs) = (xs \<noteq> [])"
| "truthy (JObject kvs) = (kvs \<noteq> [])"

text \<open>
  The number an object stands for in a comparison with a float: \<^verbatim>\<open>bool\<close> is a subclass
  of \<^verbatim>\<open>int\<close>. Everything else has no order with a float.
\<close>

fun py_number :: "json \<Rightarrow> real option" where
  "py_number (JBool b) = Some (if b then 1 else 0)"
| "py_number (JInt i) = Some (of_int i)"
| "py_number (JFloat r) = Some r"
| "py_number _ = None"

definition py_ge :: "json \<Rightarrow> real \<Rightarrow> py_exception + bool" where
  "py_ge x y = (case py_number x of None \<Rightarrow> Inl TypeError | Some r \<Rightarrow> Inr (r \<ge> y))"

definition py_lt :: "json \<Rightarrow> real \<Rightarrow> py_exception + bool" where
  "py_lt x y = (case py_number x of None \<Rightarrow> Inl TypeError | Some r \<Rightarrow> Inr (r < y))"

text \<open>\<^verbatim>\<open>x.get(key, default)\<close>: only a dict has the method.\<close>

definition py_get :: "json \<Rightarrow> string \<Rightarrow> json \<Rightarrow> py_exception + json" where
  "py_get x key dflt =
     (case x of
        JObject kvs \<Rightarrow> Inr (case map_of kvs key of None \<Rightarrow> dflt | Some v \<Rightarrow> v)
      | _ \<Rightarrow> Inl AttributeError)"

text \<open>\<^verbatim>\<open>for crit in x\<close>: a list yields its items, a dict its keys, a string its characters.\<close>

fun py_iter :: "json \<Rightarrow> py_exception + json list" where
  "py_iter (JArray xs) = Inr xs"
| "py_iter (JObject kvs) = Inr (map (\<lambda>kv. JString (fst kv)) kvs)"
| "py_iter (JString s) = Inr (map (\<lambda>c. JString [c]) s)"
| "py_iter _ = Inl TypeError"

subsection \<open>Strings\<close>

text \<open>
  \<^verbatim>\<open>str.isspace\<close> for one code point: the ASCII white space and separators, NEL, the
  no-break space and the Unicode spaces.
\<close>

definition isspace :: "nat \<Rightarrow> bool" where
  "isspace c \<longleftrightarrow>
     (9 \<le> c \<and> c \<le> 13) \<or> (28 \<le> c \<and> c \<le> 32) \<or> c = 133 \<or> c = 160 \<or> c = 5760 \<or>
     (8192 \<le> c \<and> c \<le> 8202) \<or> c = 8232 \<or> c = 8233 \<or> c = 8239 \<or> c = 8287 \<or> c = 12288"

definition lstrip :: "pystr \<Rightarrow> pystr" where
  "lstrip s = dropWhile isspace s"

definition rstrip :: "pystr \<Rightarrow> pystr" where
  "rstrip s = rev (dropWhile isspace (rev s))"

definition strip :: "pystr \<Rightarrow> pystr" where
  "strip s = lstrip (rstrip s)"

definition startswith :: "pystr \<Rightarrow> pystr \<Rightarrow> bool" where
  "startswith s p \<longleftrightarrow> take (length p) s = p"

definition endswith :: "pystr \<Rightarrow> pystr \<Rightarrow> bool" where
  "endswith s p \<longleftrightarrow> length p \<le> length s \<and> drop (length s - length p) s = p"

section \<open>The response normalizer\<close>

text \<open>
  \<^verbatim>\<open>_clean_response_text\<close> (lines 206-227). \<^verbatim>\<open>text[7:]\<close> is \<open>drop 7\<close>, and
  \<^verbatim>\<open>text[:-3]\<close> keeps all but the last three code points.
\<close>

definition clean_response_text :: "pystr \<Rightarrow> pystr" where
  "clean_response_text text0 =
     (let text1 = strip text0;
          text2 = (if startswith text1 (lit ''```json'') then drop 7 text1
                   else if startswith text1 (lit ''```'') then drop 3 text1
                   else text1);
          text3 = (if endswith text2 (lit ''```'') then take (length text2 - 3) text2
                   else text2)
      in strip text3)"

text \<open>
  Lines 148-162 of \<^verbatim>\<open>_evaluate_single_lender\<close>: clean the text and parse it.
  \<^verbatim>\<open>json.loads\<close> is the library's and is a parameter: \<open>None\<close> is
  \<^verbatim>\<open>JSONDecodeError\<close>. The handler of that error calls \<^verbatim>\<open>self._fix_json_issues\<close>.
  The class \<^verbatim>\<open>EligibilityService\<close> defines \<^verbatim>\<open>__init__\<close>,
  \<^verbatim>\<open>evaluate_application\<close>, \<^verbatim>\<open>_evaluate_single_lender\<close>,
  \<^verbatim>\<open>_extract_text_from_response\<close>, \<^verbatim>\<open>_clean_response_text\<close> and
  \<^verbatim>\<open>_convert_to_lender_match_dto\<close>, has no base class, and nothing in the repository
  adds a method to it: the attribute lookup raises \<^verbatim>\<open>AttributeError\<close> before any repair
  or second parse.
\<close>

definition parse_analysis :: "(pystr \<Rightarrow> json option) \<Rightarrow> pystr \<Rightarrow> py_exception + json" where
  "parse_analysis loads response_text =
     (let cleaned_text = clean_response_text response_text
      in case loads cleaned_text of
           Some analysis \<Rightarrow> Inr analysis
         | None \<Rightarrow> Inl AttributeError)"

section \<open>Judgments\<close>

text \<open>\<^verbatim>\<open>CriteriaEvaluationDTO\<close> and \<^verbatim>\<open>LenderMatchDTO\<close> (dto/loan_application.py).\<close>

record criteria_evaluation =
  criteria_key :: string
  display_name :: string
  required_value :: json
  actual_value :: json
  met :: bool
  reasoning :: string

record lender_match =
  lender_id :: string
  lender_name :: string
  confidence_score :: real
  overall_reasoning :: string
  criteria_evaluations :: "criteria_evaluation list"
  improvement_suggestions :: "string list option"

subsection \<open>Field validation\<close>

text \<open>
  The DTOs are pydantic models; constructing one validates each field against its
  declaration. A \<^verbatim>\<open>str\<close> field takes a string only.
\<close>

fun validate_str :: "json \<Rightarrow> string option" where
  "validate_str (JString s) = Some s"
| "validate_str _ = None"

definition ascii_lower :: "string \<Rightarrow> string" where
  "ascii_lower s =
     map (\<lambda>c. let n = (of_char c :: nat) in if 65 \<le> n \<and> n \<le> 90 then char_of (n + 32) else c) s"

text \<open>
  A \<^verbatim>\<open>bool\<close> field takes a boolean, the numbers 0 and 1, and the words that pydantic
  reads as booleans, whatever their case.
\<close>

fun validate_bool :: "json \<Rightarrow> bool option" where
  "validate_bool (JBool b) = Some b"
| "validate_bool (JInt i) = (if i = 0 then Some False else if i = 1 then Some True else None)"
| "validate_bool (JFloat r) = (if r = 0 then Some False else if r = 1 then Some True else None)"
| "validate_bool (JString s) =
     (if ascii_lower s \<in> set [''0'', ''off'', ''f'', ''false'', ''n'', ''no''] then Some False
      else if ascii_lower s \<in> set [''1'', ''on'', ''t'', ''true'', ''y'', ''yes''] then Some True
      else None)"
| "validate_bool _ = None"

text \<open>
  \<^verbatim>\<open>confidence_score: float = Field(..., ge=0, le=1)\<close>: a float, an int or a bool is
  taken as a float and must lie between 0 and 1. (A numeric string would be parsed too, but
  no string reaches this field: the comparisons of the correction below raise first.)
\<close>

definition validate_confidence_score :: "json \<Rightarrow> real option" where
  "validate_confidence_score v =
     (case py_number v of
        None \<Rightarrow> None
      | Some r \<Rightarrow> if 0 \<le> r \<and> r \<le> 1 then Some r else None)"

text \<open>\<^verbatim>\<open>improvement_suggestions: Optional[List[str]]\<close>.\<close>

fun validate_str_list :: "json list \<Rightarrow> string list option" where
  "validate_str_list [] = Some []"
| "validate_str_list (v # vs) =
     (case (validate_str v, validate_str_list vs) of
        (Some s, Some ss) \<Rightarrow> Some (s # ss)
      | _ \<Rightarrow> None)"

fun validate_suggestions :: "json \<Rightarrow> string list option option" where
  "validate_suggestions JNull = Some None"
| "validate_suggestions (JArray vs) =
     (case validate_str_list vs of None \<Rightarrow> None | Some ss \<Rightarrow> Some (Some ss))"
| "validate_suggestions _ = None"

subsection \<open>Conversion of a parsed payload\<close>

text \<open>
  One pass of the loop of lines 248-258: six \<^verbatim>\<open>crit.get\<close> calls, then the
  construction of the \<^verbatim>\<open>CriteriaEvaluationDTO\<close>.
\<close>

definition convert_criterion :: "json \<Rightarrow> py_exception + criteria_evaluation" where
  "convert_criterion crit =
     (case crit of
        JObject kvs \<Rightarrow>
          (let get = (\<lambda>key dflt. case map_of kvs key of None \<Rightarrow> dflt | Some v \<Rightarrow> v)
           in case (validate_str (get ''criteria_key'' (JString '''')),
                    validate_str (get ''display_name'' (JString '''')),
                    validate_bool (get ''met'' (JBool False)),
                    validate_str (get ''reasoning'' (JString ''''))) of
                (Some k, Some d, Some m, Some r) \<Rightarrow>
                  Inr \<lparr>criteria_key = k, display_name = d,
                       required_value = get ''required_value'' JNull,
                       actual_value = get ''actual_value'' JNull,
                       met = m, reasoning = r\<rparr>
              | _ \<Rightarrow> Inl ValidationError)
      | _ \<Rightarrow> Inl AttributeError)"

fun convert_criteria :: "json list \<Rightarrow> py_exception + criteria_evaluation list" where
  "convert_criteria [] = Inr []"
| "convert_criteria (crit # crits) =
     (case convert_criterion crit of
        Inl e \<Rightarrow> Inl e
      | Inr c \<Rightarrow> (case convert_criteria crits of Inl e \<Rightarrow> Inl e | Inr cs \<Rightarrow> Inr (c # cs)))"

text \<open>
  The confidence-consistency correction, lines 264-268, with Python's short-circuit
  evaluation: the first comparison is evaluated only when \<^verbatim>\<open>overall_match\<close> is falsy,
  the second only when it is truthy.
\<close>

definition adjust_confidence :: "json \<Rightarrow> json \<Rightarrow> py_exception + json" where
  "adjust_confidence overall_match base_confidence =
     (if \<not> truthy overall_match then
        (case py_ge base_confidence 0.5 of
           Inl e \<Rightarrow> Inl e
         | Inr is_ge \<Rightarrow> Inr (if is_ge then JFloat 0.4 else base_confidence))
      else
        (case py_lt base_confidence 0.5 of
           Inl e \<Rightarrow> Inl e
         | Inr is_lt \<Rightarrow> Inr (if is_lt then JFloat 0.6 else base_confidence)))"

text \<open>
  \<^verbatim>\<open>_convert_to_lender_match_dto\<close> (lines 229-277), in the order of the source: the
  criteria loop, the two \<^verbatim>\<open>get\<close>s, the correction, the construction of the DTO.
\<close>

definition convert_to_lender_match_dto :: "string \<Rightarrow> string \<Rightarrow> json \<Rightarrow> py_exception + lender_match" where
  "convert_to_lender_match_dto lid lname analysis =
     (case py_get analysis ''criteria_evaluations'' (JArray []) of
        Inl e \<Rightarrow> Inl e
      | Inr crit_src \<Rightarrow>
     (case py_iter crit_src of
        Inl e \<Rightarrow> Inl e
      | Inr crits \<Rightarrow>
     (case convert_criteria crits of
        Inl e \<Rightarrow> Inl e
      | Inr criteria_evals \<Rightarrow>
     (case py_get analysis ''overall_match'' (JBool False) of
        Inl e \<Rightarrow> Inl e
      | Inr overall_match \<Rightarrow>
     (case py_get analysis ''confidence_score'' (JFloat 0.5) of
        Inl e \<Rightarrow> Inl e
      | Inr base_confidence \<Rightarrow>
     (case adjust_confidence overall_match base_confidence of
        Inl e \<Rightarrow> Inl e
      | Inr adjusted \<Rightarrow>
     (case py_get analysis ''overall_reasoning'' (JString '''') of
        Inl e \<Rightarrow> Inl e
      | Inr reasoning_src \<Rightarrow>
     (case py_get analysis ''improvement_suggestions'' (JArray []) of
        Inl e \<Rightarrow> Inl e
      | Inr suggestions_src \<Rightarrow>
     (case (validate_confidence_score adjusted, validate_str reasoning_src,
            validate_suggestions suggestions_src) of
        (Some c, Some r, Some s) \<Rightarrow>
          Inr \<lparr>lender_id = lid, lender_name = lname, confidence_score = c,
               overall_reasoning = r, criteria_evaluations = criteria_evals,
               improvement_suggestions = s\<rparr>
      | _ \<Rightarrow> Inl ValidationError)))))))))"

section \<open>The single-lender evaluator\<close>

text \<open>
  A lender as \<^verbatim>\<open>evaluate_application\<close> receives it: a dict read with
  \<^verbatim>\<open>get('_id', '')\<close>, \<^verbatim>\<open>get('name', 'Unknown Lender')\<close> and
  \<^verbatim>\<open>get('criteria', [])\<close>. The criteria only go into the prompt.
\<close>

record 'c lender_data =
  key_id :: "string option"
  key_name :: "string option"
  key_criteria :: 'c

text \<open>
  What lines 113-146 do is outside the program: the prompt text and the HTTP exchange
  with the model. Their outcome is a parameter. \<open>PromptRaises\<close>: building the prompt
  (line 114, before the \<^verbatim>\<open>try\<close>) raised. \<open>CallRaises\<close>: the request,
  \<^verbatim>\<open>raise_for_status\<close>, \<^verbatim>\<open>response.json()\<close> or
  \<^verbatim>\<open>_extract_text_from_response\<close> raised, inside the \<^verbatim>\<open>try\<close>.
  \<open>ResponseText\<close>: the text that \<^verbatim>\<open>_extract_text_from_response\<close> returned.
\<close>

datatype oracle_outcome =
    PromptRaises py_exception
  | CallRaises py_exception
  | ResponseText pystr

text \<open>The three \<^verbatim>\<open>except\<close> clauses of lines 171-183, tried in this order.\<close>

fun handle_exception :: "string \<Rightarrow> py_exception \<Rightarrow> py_exception" where
  "handle_exception lname HTTPStatusError = GeminiAPIError lname"
| "handle_exception lname JSONDecodeError = FailedToParse lname"
| "handle_exception lname e = ErrorEvaluating lname"

text \<open>\<^verbatim>\<open>_evaluate_single_lender\<close> (lines 91-183): \<open>Inl\<close> is the exception it raises.\<close>

definition evaluate_single_lender ::
  "(pystr \<Rightarrow> json option) \<Rightarrow> ('a \<Rightarrow> string \<Rightarrow> 'c \<Rightarrow> oracle_outcome) \<Rightarrow> 'a \<Rightarrow> 'c lender_data
     \<Rightarrow> py_exception + lender_match" where
  "evaluate_single_lender loads oracle application_data lender =
     (let lid = (case key_id lender of None \<Rightarrow> [] | Some i \<Rightarrow> i);
          lname = (case key_name lender of None \<Rightarrow> ''Unknown Lender'' | Some n \<Rightarrow> n)
      in case oracle application_data lname (key_criteria lender) of
           PromptRaises e \<Rightarrow> Inl e
         | CallRaises e \<Rightarrow> Inl (handle_exception lname e)
         | ResponseText response_text \<Rightarrow>
             (case parse_analysis loads response_text of
                Inl e \<Rightarrow> Inl (handle_exception lname e)
              | Inr analysis \<Rightarrow>
                  (case convert_to_lender_match_dto lid lname analysis of
                     Inl e \<Rightarrow> Inl (handle_exception lname e)
                   | Inr dto \<Rightarrow> Inr dto)))"

section \<open>The fan-out coordinator\<close>

text \<open>\<^verbatim>\<open>EligibilityResultDTO\<close>; the timestamp is a number of seconds.\<close>

record eligibility_result =
  application_id :: string
  matched_lenders :: "lender_match list"
  unmatched_lenders :: "lender_match list"
  analysis_timestamp :: nat
  total_lenders_evaluated :: nat

text \<open>
  \<^verbatim>\<open>asyncio.gather(*tasks, return_exceptions=True)\<close> returns one entry per task, in the
  order of the tasks, an exception object where the task raised. The model may answer
  the same prompt differently each time, so the oracle takes the index of the task.
\<close>

definition gather_evaluations ::
  "(pystr \<Rightarrow> json option) \<Rightarrow> (nat \<Rightarrow> 'a \<Rightarrow> string \<Rightarrow> 'c \<Rightarrow> oracle_outcome) \<Rightarrow> 'a \<Rightarrow> 'c lender_data list
     \<Rightarrow> (py_exception + lender_match) list" where
  "gather_evaluations loads oracle application_data lenders =
     map (\<lambda>(i, lender). evaluate_single_lender loads (oracle i) application_data lender)
       (zip [0..<length lenders] lenders)"

text \<open>The loop of lines 65-77, with the two lists it appends to.\<close>

fun partition_results ::
  "(py_exception + lender_match) list \<Rightarrow> lender_match list \<Rightarrow> lender_match list
     \<Rightarrow> lender_match list \<times> lender_match list" where
  "partition_results [] matched unmatched = (matched, unmatched)"
| "partition_results (Inl e # results) matched unmatched =
     partition_results results matched unmatched"
| "partition_results (Inr result # results) matched unmatched =
     (if confidence_score result \<ge> 0.5
      then partition_results results (matched @ [result]) unmatched
      else partition_results results matched (unmatched @ [result]))"

text \<open>
  \<^verbatim>\<open>xs.sort(key=lambda x: x.confidence_score, reverse=True)\<close>. Python's sort is stable,
  and with \<^verbatim>\<open>reverse=True\<close> equal keys still keep their order; a stable sort has one
  result only, which is that of the stable insertion sort on the negated key.
\<close>

definition sort_by_confidence :: "lender_match list \<Rightarrow> lender_match list" where
  "sort_by_confidence xs = sort_key (\<lambda>x. - confidence_score x) xs"

text \<open>\<^verbatim>\<open>evaluate_application\<close> (lines 35-89); \<open>utcnow\<close> is the clock's reading.\<close>

definition evaluate_application ::
  "(pystr \<Rightarrow> json option) \<Rightarrow> (nat \<Rightarrow> 'a \<Rightarrow> string \<Rightarrow> 'c \<Rightarrow> oracle_outcome) \<Rightarrow> nat
     \<Rightarrow> string \<Rightarrow> 'a \<Rightarrow> 'c lender_data list \<Rightarrow> eligibility_result" where
  "evaluate_application loads oracle utcnow app_id application_data lenders_with_criteria =
     (let evaluation_results = gather_evaluations loads oracle application_data lenders_with_criteria;
          (matched, unmatched) = partition_results evaluation_results [] []
      in \<lparr>application_id = app_id,
          matched_lenders = sort_by_confidence matched,
          unmatched_lenders = sort_by_confidence unmatched,
          analysis_timestamp = utcnow,
          total_lenders_evaluated = length lenders_with_criteria\<rparr>)"

section \<open>The callers\<close>







section \<open>Notions used in the statements\<close>

text \<open>The judgments among the entries of \<^verbatim>\<open>evaluation_results\<close>, in their order.\<close>

fun returned :: "(py_exception + lender_match) list \<Rightarrow> lender_match list" where
  "returned [] = []"
| "returned (Inl e # results) = returned results"
| "returned (Inr result # results) = result # returned results"

text \<open>
  The inputs of the examples. Six response texts; \<open>sample_loads\<close> is \<^verbatim>\<open>json.loads\<close> on
  the texts of the examples: the value it returns for the five that are JSON documents,
  and \<^verbatim>\<open>JSONDecodeError\<close> for the other texts that occur (a document with a comma
  before its closing brace, a document behind the word \<^verbatim>\<open>python\<close>).
\<close>

definition response_A :: pystr where
  \<open>response_A = lit ''{"overall_match": true, "confidence_score": 0.9}''\<close>

definition response_C :: pystr where
  \<open>response_C = lit ''{"overall_match": false, "confidence_score": 0.3}''\<close>

definition response_D :: pystr where
  \<open>response_D = lit ''{"overall_match": false, "confidence_score": 0.9}''\<close>

definition response_E :: pystr where
  \<open>response_E = lit ''{"overall_match": true, "confidence_score": 1.5}''\<close>

definition response_empty :: pystr where
  \<open>response_empty = lit ''{}''\<close>

definition response_trailing_comma :: pystr where
  \<open>response_trailing_comma = lit ''{"overall_match": true, "confidence_score": 0.8,}''\<close>

definition verdict :: "bool \<Rightarrow> real \<Rightarrow> json" where
  "verdict m c = JObject [(''overall_match'', JBool m), (''confidence_score'', JFloat c)]"

definition sample_loads :: "pystr \<Rightarrow> json option" where
  "sample_loads t =
     (if t = response_A then Some (verdict True 0.9)
      else if t = response_C then Some (verdict False 0.3)
      else if t = response_D then Some (verdict False 0.9)
      else if t = response_E then Some (verdict True 1.5)
      else if t = response_empty then Some (JObject [])
      else None)"

text \<open>An oracle that answers the task of index \<open>i\<close> with the \<open>i\<close>-th outcome of a list.\<close>

definition scripted :: "oracle_outcome list \<Rightarrow> nat \<Rightarrow> 'a \<Rightarrow> string \<Rightarrow> 'c \<Rightarrow> oracle_outcome" where
  "scripted outcomes i app lname crit =
     (if i < length outcomes then outcomes ! i else CallRaises TransportError)"

definition sample_lender :: "string \<Rightarrow> string \<Rightarrow> unit lender_data" where
  "sample_lender i n = \<lparr>key_id = Some i, key_name = Some n, key_criteria = ()\<rparr>"

text \<open>The judgment of a payload that has the two verdict fields only.\<close>

definition sample_judgment :: "string \<Rightarrow> string \<Rightarrow> real \<Rightarrow> lender_match" where
  "sample_judgment i n c =
     \<lparr>lender_id = i, lender_name = n, confidence_score = c, overall_reasoning = [],
      criteria_evaluations = [], improvement_suggestions = Some []\<rparr>"


section \<open>Properties of the parts\<close>

subsection \<open>The loop and the sort\<close>

lemma partition_results_eq:
  "partition_results rs m u =
     (m @ filter (\<lambda>j. confidence_score j \<ge> 0.5) (returned rs),
      u @ filter (\<lambda>j. \<not> confidence_score j \<ge> 0.5) (returned rs))"
  by (induction rs m u rule: partition_results.induct) simp_all

lemma matched_lenders_eq:
  "matched_lenders (evaluate_application loads oracle now aid app ls) =
     sort_by_confidence (filter (\<lambda>j. confidence_score j \<ge> 0.5)
       (returned (gather_evaluations loads oracle app ls)))"
  by (simp add: evaluate_application_def partition_results_eq Let_def)

lemma unmatched_lenders_eq:
  "unmatched_lenders (evaluate_application loads oracle now aid app ls) =
     sort_by_confidence (filter (\<lambda>j. \<not> confidence_score j \<ge> 0.5)
       (returned (gather_evaluations loads oracle app ls)))"
  by (simp add: evaluate_application_def partition_results_eq Let_def)

lemma evaluate_application_results:
  assumes "gather_evaluations loads oracle app ls = rs"
  shows "evaluate_application loads oracle now aid app ls =
           \<lparr>application_id = aid,
            matched_lenders =
              sort_by_confidence (filter (\<lambda>j. confidence_score j \<ge> 0.5) (returned rs)),
            unmatched_lenders =
              sort_by_confidence (filter (\<lambda>j. \<not> confidence_score j \<ge> 0.5) (returned rs)),
            analysis_timestamp = now,
            total_lenders_evaluated = length ls\<rparr>"
  using assms by (simp add: evaluate_application_def partition_results_eq Let_def)

lemma gather_length: "length (gather_evaluations loads oracle app ls) = length ls"
  by (simp add: gather_evaluations_def)

lemma gather_nth:
  "i < length ls \<Longrightarrow>
     gather_evaluations loads oracle app ls ! i =
       evaluate_single_lender loads (oracle i) app (ls ! i)"
  by (simp add: gather_evaluations_def)

lemma gather_one:
  "gather_evaluations loads oracle app [l0] = [evaluate_single_lender loads (oracle 0) app l0]"
  by (simp add: gather_evaluations_def)

lemma gather_three:
  "gather_evaluations loads oracle app [l0, l1, l2] =
     [evaluate_single_lender loads (oracle 0) app l0,
      evaluate_single_lender loads (oracle 1) app l1,
      evaluate_single_lender loads (oracle 2) app l2]"
  by (simp add: gather_evaluations_def upt_rec numeral_2_eq_2)

lemma returned_iff: "j \<in> set (returned rs) \<longleftrightarrow> Inr j \<in> set rs"
  by (induction rs rule: returned.induct) auto

lemma sort_by_confidence_sorted:
  "sorted_wrt (\<lambda>a b. confidence_score a \<ge> confidence_score b) (sort_by_confidence xs)"
proof -
  have "sorted (map (\<lambda>x. - confidence_score x) (sort_by_confidence xs))"
    unfolding sort_by_confidence_def by (rule sorted_sort_key)
  then show ?thesis
    by (simp add: sorted_map)
qed

lemma sort_by_confidence_stable:
  "filter (\<lambda>j. confidence_score j = c) (sort_by_confidence xs) =
     filter (\<lambda>j. confidence_score j = c) xs"
  using sort_key_stable [of "\<lambda>x. - confidence_score x" "- c" xs]
  by (simp add: sort_by_confidence_def)

subsection \<open>The correction and the conversion\<close>

lemma adjust_confidence_Inr:
  assumes "adjust_confidence m c = Inr v"
  shows "\<exists>r. py_number c = Some r \<and>
           v = (if \<not> truthy m \<and> r \<ge> 0.5 then JFloat 0.4
                else if truthy m \<and> r < 0.5 then JFloat 0.6 else c)"
  using assms
  by (auto simp: adjust_confidence_def py_ge_def py_lt_def split: if_splits option.splits)

lemma adjust_confidence_number:
  assumes "py_number c = Some r"
  shows "adjust_confidence m c =
           Inr (if \<not> truthy m \<and> r \<ge> 0.5 then JFloat 0.4
                else if truthy m \<and> r < 0.5 then JFloat 0.6 else c)"
  using assms
  by (auto simp: adjust_confidence_def py_ge_def py_lt_def)

lemma validate_confidence_score_Some:
  "validate_confidence_score v = Some x \<longleftrightarrow> py_number v = Some x \<and> 0 \<le> x \<and> x \<le> 1"
  by (auto simp: validate_confidence_score_def split: option.splits)

lemma convert_Inr:
  assumes "convert_to_lender_match_dto lid lname analysis = Inr j"
  shows "\<exists>m c v. py_get analysis ''overall_match'' (JBool False) = Inr m \<and>
           py_get analysis ''confidence_score'' (JFloat 0.5) = Inr c \<and>
           adjust_confidence m c = Inr v \<and>
           validate_confidence_score v = Some (confidence_score j)"
  using assms
  by (auto simp: convert_to_lender_match_dto_def split: sum.splits option.splits)

lemma convert_verdict:
  assumes "convert_to_lender_match_dto lid lname analysis = Inr j"
  shows "\<exists>m. py_get analysis ''overall_match'' (JBool False) = Inr m \<and>
           (confidence_score j \<ge> 0.5 \<longleftrightarrow> truthy m) \<and>
           0 \<le> confidence_score j \<and> confidence_score j \<le> 1"
proof -
  from convert_Inr [OF assms] obtain m c v where
    m: "py_get analysis ''overall_match'' (JBool False) = Inr m" and
    a: "adjust_confidence m c = Inr v" and
    v: "validate_confidence_score v = Some (confidence_score j)"
    by blast
  from adjust_confidence_Inr [OF a] obtain r where
    r: "py_number c = Some r" and
    v': "v = (if \<not> truthy m \<and> r \<ge> 0.5 then JFloat 0.4
              else if truthy m \<and> r < 0.5 then JFloat 0.6 else c)"
    by blast
  from v v' r have "(confidence_score j \<ge> 0.5 \<longleftrightarrow> truthy m) \<and>
           0 \<le> confidence_score j \<and> confidence_score j \<le> 1"
    by (auto simp: validate_confidence_score_Some split: if_splits)
  with m show ?thesis by blast
qed

lemma convert_verdict_payload:
  "convert_to_lender_match_dto i n (verdict m c) =
     (if \<not> m \<and> c \<ge> 0.5 then Inr (sample_judgment i n 0.4)
      else if m \<and> c < 0.5 then Inr (sample_judgment i n 0.6)
      else if 0 \<le> c \<and> c \<le> 1 then Inr (sample_judgment i n c)
      else Inl ValidationError)"
  by (simp add: convert_to_lender_match_dto_def verdict_def py_get_def adjust_confidence_def
      py_ge_def py_lt_def validate_confidence_score_def sample_judgment_def)

lemma convert_empty_payload:
  "convert_to_lender_match_dto i n (JObject []) = Inr (sample_judgment i n 0.4)"
  by (simp add: convert_to_lender_match_dto_def py_get_def adjust_confidence_def
      py_ge_def py_lt_def validate_confidence_score_def sample_judgment_def)

subsection \<open>One lender\<close>

lemma evaluate_single_lender_Inr:
  assumes "evaluate_single_lender loads orc app lender = Inr j"
  shows "\<exists>t analysis.
           orc app (case key_name lender of None \<Rightarrow> ''Unknown Lender'' | Some n \<Rightarrow> n)
             (key_criteria lender) = ResponseText t \<and>
           loads (clean_response_text t) = Some analysis \<and>
           convert_to_lender_match_dto (case key_id lender of None \<Rightarrow> [] | Some i \<Rightarrow> i)
             (case key_name lender of None \<Rightarrow> ''Unknown Lender'' | Some n \<Rightarrow> n) analysis = Inr j"
  using assms
  by (auto simp: evaluate_single_lender_def parse_analysis_def Let_def
      split: oracle_outcome.splits sum.splits option.splits)

lemma parse_failure_final:
  "loads (clean_response_text t) = None \<Longrightarrow> parse_analysis loads t = Inl AttributeError"
  by (simp add: parse_analysis_def)

subsection \<open>The report\<close>

lemma in_matched_iff:
  "j \<in> set (matched_lenders (evaluate_application loads oracle utcnow app_id app ls)) \<longleftrightarrow>
     Inr j \<in> set (gather_evaluations loads oracle app ls) \<and> confidence_score j \<ge> 0.5"
  by (auto simp: matched_lenders_eq sort_by_confidence_def returned_iff)

lemma in_unmatched_iff:
  "j \<in> set (unmatched_lenders (evaluate_application loads oracle utcnow app_id app ls)) \<longleftrightarrow>
     Inr j \<in> set (gather_evaluations loads oracle app ls) \<and> confidence_score j < 0.5"
  by (auto simp: unmatched_lenders_eq sort_by_confidence_def returned_iff)

lemma gather_Inr_bounds:
  assumes "Inr j \<in> set (gather_evaluations loads oracle app ls)"
  shows "0 \<le> confidence_score j \<and> confidence_score j \<le> 1"
proof -
  from assms obtain i where i: "i < length ls"
    and g: "gather_evaluations loads oracle app ls ! i = Inr j"
    by (metis in_set_conv_nth gather_length)
  then have "evaluate_single_lender loads (oracle i) app (ls ! i) = Inr j"
    by (simp add: gather_nth)
  from evaluate_single_lender_Inr [OF this] obtain lid lname analysis where
    "convert_to_lender_match_dto lid lname analysis = Inr j"
    by blast
  from convert_verdict [OF this] show ?thesis by blast
qed

lemma convert_absent_fails:
  assumes "map_of kvs ''overall_match'' = None" "map_of kvs ''confidence_score'' = None"
    and "convert_to_lender_match_dto lid lname (JObject kvs) = Inl e"
  shows "\<exists>e'. convert_to_lender_match_dto lid lname
           (JObject ((''overall_match'', m) # (''confidence_score'', c) # kvs)) = Inl e'"
  using assms
  by (auto simp: convert_to_lender_match_dto_def py_get_def adjust_confidence_def py_ge_def
      py_lt_def validate_confidence_score_def split: sum.splits option.splits if_splits)

lemma convert_absent_confidence:
  assumes "map_of kvs ''overall_match'' = None" "map_of kvs ''confidence_score'' = None"
    and "convert_to_lender_match_dto lid lname (JObject kvs) = Inr j"
  shows "confidence_score j = 0.4"
  using assms
  by (auto simp: convert_to_lender_match_dto_def py_get_def adjust_confidence_def py_ge_def
      py_lt_def validate_confidence_score_def split: sum.splits option.splits if_splits)

subsection \<open>Stripping\<close>

lemma last_dropWhile: "dropWhile P xs \<noteq> [] \<Longrightarrow> last (dropWhile P xs) = last xs"
  by (induction xs) (auto split: if_splits)

lemma strip_fixed:
  assumes "s = [] \<or> (\<not> isspace (hd s) \<and> \<not> isspace (last s))"
  shows "strip s = s"
proof (cases "s = []")
  case True
  then show ?thesis by (simp add: strip_def lstrip_def rstrip_def)
next
  case False
  with assms have h: "\<not> isspace (hd s)" and l: "\<not> isspace (last s)" by auto
  from False l have "\<not> isspace (hd (rev s))" by (simp add: hd_rev)
  with False have "dropWhile isspace (rev s) = rev s"
    by (cases "rev s") auto
  then have "rstrip s = s" by (simp add: rstrip_def)
  moreover from False h have "lstrip s = s" by (cases s) (auto simp: lstrip_def)
  ultimately show ?thesis by (simp add: strip_def)
qed

lemma startswith_json_fence:
  "startswith s (lit ''```json'') \<Longrightarrow> startswith s (lit ''```'')"
proof -
  assume "startswith s (lit ''```json'')"
  then have "take 7 s = [96, 96, 96, 106, 115, 111, 110]"
    by (simp add: startswith_def eval_nat_numeral)
  then have "take 3 (take 7 s) = [96, 96, 96]" by simp
  then show ?thesis by (simp add: startswith_def eval_nat_numeral)
qed

lemma clean_plain:
  assumes "strip s = s" "\<not> startswith s (lit ''```'')" "\<not> endswith s (lit ''```'')"
  shows "clean_response_text s = s"
  using assms startswith_json_fence [of s]
  by (auto simp: clean_response_text_def Let_def)

lemma strip_space_left: "isspace w \<Longrightarrow> strip (w # p) = strip p"
proof -
  assume w: "isspace w"
  show ?thesis
  proof (cases "\<forall>x \<in> set p. isspace x")
    case True
    then have "dropWhile isspace (rev p) = []"
      by simp
    with True w show ?thesis
      by (simp add: strip_def rstrip_def lstrip_def dropWhile_append
          del: dropWhile_eq_Nil_conv)
  next
    case False
    with w show ?thesis
      by (auto simp add: strip_def rstrip_def lstrip_def dropWhile_append)
  qed
qed

lemma strip_space_right: "isspace w \<Longrightarrow> strip (p @ [w]) = strip p"
  by (simp add: strip_def rstrip_def)

lemma strip_shape:
  "strip s = [] \<or> (\<not> isspace (hd (strip s)) \<and> \<not> isspace (last (strip s)))"
proof (cases "strip s = []")
  case True
  then show ?thesis by simp
next
  case False
  then have ne: "dropWhile isspace (rstrip s) \<noteq> []"
    by (simp add: strip_def lstrip_def)
  then have h: "\<not> isspace (hd (strip s))"
    by (simp add: strip_def lstrip_def hd_dropWhile)
  from ne have r: "rstrip s \<noteq> []" by auto
  then have d: "dropWhile isspace (rev s) \<noteq> []" by (simp add: rstrip_def)
  from ne have "last (strip s) = last (rstrip s)"
    by (simp add: strip_def lstrip_def last_dropWhile)
  also from d have "\<dots> = hd (dropWhile isspace (rev s))"
    by (simp add: rstrip_def last_rev)
  finally have "\<not> isspace (last (strip s))"
    using d by (simp add: hd_dropWhile)
  with h show ?thesis by simp
qed

lemma strip_idem: "strip (strip s) = strip s"
  by (rule strip_fixed) (rule strip_shape)

lemma clean_unfenced:
  assumes "\<not> startswith (strip p) (lit ''```'')" "\<not> endswith (strip p) (lit ''```'')"
  shows "clean_response_text p = strip p"
  using assms startswith_json_fence [of "strip p"]
  by (auto simp: clean_response_text_def Let_def strip_idem)

lemma clean_response_text_steps:
  assumes "strip t = t1"
    and "(if startswith t1 (lit ''```json'') then drop 7 t1
          else if startswith t1 (lit ''```'') then drop 3 t1 else t1) = t2"
    and "(if endswith t2 (lit ''```'') then take (length t2 - 3) t2 else t2) = t3"
  shows "clean_response_text t = strip t3"
  unfolding clean_response_text_def Let_def by (simp only: assms)

lemma strip_spaces_left: "list_all isspace w \<Longrightarrow> strip (w @ p) = strip p"
  by (induction w) (simp_all add: strip_space_left)

lemma strip_spaces_right: "list_all isspace w \<Longrightarrow> strip (p @ w) = strip p"
proof (induction w rule: rev_induct)
  case Nil
  then show ?case by simp
next
  case (snoc x xs)
  then have "isspace x" "list_all isspace xs" by simp_all
  with snoc.IH strip_space_right [of x "p @ xs"] show ?case by simp
qed

lemma startswith_append_disjoint:
  assumes "set b \<inter> set q = {}"
  shows "startswith (a @ b) q = startswith a q"
proof
  assume "startswith (a @ b) q"
  then have e: "take (length q) a @ take (length q - length a) b = q"
    by (simp add: startswith_def)
  then have "set (take (length q - length a) b) \<subseteq> set q" by (metis set_append Un_upper2)
  moreover have "set (take (length q - length a) b) \<subseteq> set b" by (rule set_take_subset)
  ultimately have "set (take (length q - length a) b) \<subseteq> set b \<inter> set q" by simp
  with assms have "set (take (length q - length a) b) = {}" by simp
  then have "take (length q - length a) b = []" by simp
  with e show "startswith a q" by (simp add: startswith_def)
next
  assume "startswith a q"
  then have t: "take (length q) a = q" by (simp add: startswith_def)
  then have "length (take (length q) a) = length q" by simp
  then have "length q \<le> length a" by simp
  with t show "startswith (a @ b) q" by (simp add: startswith_def)
qed

lemma fenced_block:
  assumes "list_all isspace ws0" and "list_all isspace ws3"
  shows "clean_response_text (ws0 @ lit ''```'' @ rest @ lit ''```'' @ ws3) =
           strip (if startswith rest (lit ''json'') then drop 4 rest else rest)"
proof -
  let ?inner = "if startswith rest (lit ''json'') then drop 4 rest else rest"
  let ?block = "96 # (96 # 96 # rest @ [96, 96]) @ [96]"
  have "\<not> isspace 96" by (simp add: isspace_def)
  then have "strip ?block = ?block" by (intro strip_fixed) simp
  moreover have "ws0 @ lit ''```'' @ rest @ lit ''```'' @ ws3 = ws0 @ ?block @ ws3" by simp
  ultimately have 1: "strip (ws0 @ lit ''```'' @ rest @ lit ''```'' @ ws3) = ?block"
    using strip_spaces_left [OF assms(1), of "?block @ ws3"]
      strip_spaces_right [OF assms(2), of ?block]
    by simp
  have j: "startswith (rest @ [96, 96, 96]) (lit ''json'') = startswith rest (lit ''json'')"
    by (rule startswith_append_disjoint) simp
  have s7: "startswith ?block (lit ''```json'') = startswith rest (lit ''json'')"
    using j by (simp add: startswith_def eval_nat_numeral)
  have s3: "startswith ?block (lit ''```'')"
    by (simp add: startswith_def eval_nat_numeral)
  have d: "drop 4 (rest @ [96, 96, 96]) = drop 4 rest @ [96, 96, 96]"
    if "startswith rest (lit ''json'')"
  proof -
    from that have "take 4 rest = [106, 115, 111, 110]"
      by (simp add: startswith_def eval_nat_numeral)
    then have "length (take 4 rest) = 4" by simp
    then have "4 \<le> length rest" by simp
    then show ?thesis by simp
  qed
  have 2: "(if startswith ?block (lit ''```json'') then drop 7 ?block
            else if startswith ?block (lit ''```'') then drop 3 ?block
            else ?block) = ?inner @ [96, 96, 96]"
  proof (cases "startswith rest (lit ''json'')")
    case True
    with s7 have "startswith ?block (lit ''```json'')" by blast
    then have "(if startswith ?block (lit ''```json'') then drop 7 ?block
            else if startswith ?block (lit ''```'') then drop 3 ?block
            else ?block) = drop 7 ?block"
      by (rule if_P)
    also have "drop 7 ?block = drop 4 rest @ [96, 96, 96]"
      using d [OF True] by simp
    also have "\<dots> = ?inner @ [96, 96, 96]"
      using True by simp
    finally show ?thesis .
  next
    case False
    with s7 have "\<not> startswith ?block (lit ''```json'')" by blast
    then have "(if startswith ?block (lit ''```json'') then drop 7 ?block
            else if startswith ?block (lit ''```'') then drop 3 ?block
            else ?block) =
          (if startswith ?block (lit ''```'') then drop 3 ?block else ?block)"
      by (rule if_not_P)
    also from s3 have "\<dots> = drop 3 ?block"
      by (rule if_P)
    also have "drop 3 ?block = rest @ [96, 96, 96]"
      by simp
    also have "\<dots> = ?inner @ [96, 96, 96]"
      using False by simp
    finally show ?thesis .
  qed
  have 3: "(if endswith (?inner @ [96, 96, 96]) (lit ''```'')
            then take (length (?inner @ [96, 96, 96]) - 3) (?inner @ [96, 96, 96])
            else ?inner @ [96, 96, 96]) = ?inner"
    by (simp add: endswith_def)
  from clean_response_text_steps [OF 1 2 3] show ?thesis .
qed

lemma fenced_payload:
  assumes ws: "list_all isspace ws0" "list_all isspace ws1" "list_all isspace ws2"
      "list_all isspace ws3"
    and tag: "tag = lit ''json'' \<or> (tag = [] \<and> \<not> startswith (ws1 @ p) (lit ''json''))"
  shows "clean_response_text (ws0 @ lit ''```'' @ tag @ ws1 @ p @ ws2 @ lit ''```'' @ ws3) =
           strip p"
proof -
  have sp: "strip (ws1 @ p @ ws2) = strip p"
    using strip_spaces_left [OF ws(2), of "p @ ws2"] strip_spaces_right [OF ws(3), of p]
    by simp
  from tag show ?thesis
  proof
    assume t: "tag = lit ''json''"
    have "startswith (tag @ ws1 @ p @ ws2) (lit ''json'')"
      by (simp add: t startswith_def)
    moreover have "drop 4 (tag @ ws1 @ p @ ws2) = ws1 @ p @ ws2"
      by (simp add: t)
    ultimately show ?thesis
      using fenced_block [OF ws(1) ws(4), of "tag @ ws1 @ p @ ws2"] sp by simp
  next
    assume t: "tag = [] \<and> \<not> startswith (ws1 @ p) (lit ''json'')"
    have "set ws2 \<inter> set (lit ''json'') = {}"
      using ws(3) by (auto simp: list_all_iff isspace_def)
    from startswith_append_disjoint [OF this, of "ws1 @ p"] t
    have "\<not> startswith (tag @ ws1 @ p @ ws2) (lit ''json'')"
      by simp
    then show ?thesis
      using fenced_block [OF ws(1) ws(4), of "tag @ ws1 @ p @ ws2"] sp t by simp
  qed
qed

subsection \<open>The examples evaluated\<close>

lemma clean_A: "clean_response_text response_A = response_A"
  by (rule clean_plain [OF strip_fixed])
    (simp_all add: response_A_def isspace_def startswith_def endswith_def)

lemma clean_C: "clean_response_text response_C = response_C"
  by (rule clean_plain [OF strip_fixed])
    (simp_all add: response_C_def isspace_def startswith_def endswith_def)

lemma clean_D: "clean_response_text response_D = response_D"
  by (rule clean_plain [OF strip_fixed])
    (simp_all add: response_D_def isspace_def startswith_def endswith_def)

lemma clean_E: "clean_response_text response_E = response_E"
  by (rule clean_plain [OF strip_fixed])
    (simp_all add: response_E_def isspace_def startswith_def endswith_def)

lemma clean_empty: "clean_response_text response_empty = response_empty"
  by (rule clean_plain [OF strip_fixed])
    (simp_all add: response_empty_def isspace_def startswith_def endswith_def)

lemma clean_trailing_comma:
  "clean_response_text response_trailing_comma = response_trailing_comma"
  by (rule clean_plain [OF strip_fixed])
    (simp_all add: response_trailing_comma_def isspace_def startswith_def endswith_def)

lemma sample_loads_simps:
  "sample_loads response_A = Some (verdict True 0.9)"
  "sample_loads response_C = Some (verdict False 0.3)"
  "sample_loads response_D = Some (verdict False 0.9)"
  "sample_loads response_E = Some (verdict True 1.5)"
  "sample_loads response_empty = Some (JObject [])"
  "sample_loads response_trailing_comma = None"
  by (simp_all add: sample_loads_def response_A_def response_C_def response_D_def
      response_E_def response_empty_def response_trailing_comma_def)

lemmas sample_eval =
  evaluate_single_lender_def parse_analysis_def Let_def scripted_def sample_lender_def
  clean_A clean_C clean_D clean_E clean_empty clean_trailing_comma sample_loads_simps
  convert_verdict_payload convert_empty_payload

lemma sample_single:
  assumes "k < length outs"
  shows "outs ! k = ResponseText response_A \<Longrightarrow>
           evaluate_single_lender sample_loads (scripted outs k) () (sample_lender i n)
             = Inr (sample_judgment i n 0.9)"
    and "outs ! k = ResponseText response_C \<Longrightarrow>
           evaluate_single_lender sample_loads (scripted outs k) () (sample_lender i n)
             = Inr (sample_judgment i n 0.3)"
    and "outs ! k = ResponseText response_D \<Longrightarrow>
           evaluate_single_lender sample_loads (scripted outs k) () (sample_lender i n)
             = Inr (sample_judgment i n 0.4)"
    and "outs ! k = ResponseText response_E \<Longrightarrow>
           evaluate_single_lender sample_loads (scripted outs k) () (sample_lender i n)
             = Inl (ErrorEvaluating n)"
    and "outs ! k = ResponseText response_empty \<Longrightarrow>
           evaluate_single_lender sample_loads (scripted outs k) () (sample_lender i n)
             = Inr (sample_judgment i n 0.4)"
    and "outs ! k = ResponseText response_trailing_comma \<Longrightarrow>
           evaluate_single_lender sample_loads (scripted outs k) () (sample_lender i n)
             = Inl (ErrorEvaluating n)"
    and "outs ! k = CallRaises TransportError \<Longrightarrow>
           evaluate_single_lender sample_loads (scripted outs k) () (sample_lender i n)
             = Inl (ErrorEvaluating n)"
  using assms by (simp_all add: sample_eval)

lemma report_tie:
  "evaluate_application sample_loads
     (scripted [ResponseText response_A, ResponseText response_A, ResponseText response_C])
     7 ''app-1'' () [sample_lender ''1'' ''A'', sample_lender ''2'' ''B'', sample_lender ''3'' ''C''] =
   \<lparr>application_id = ''app-1'',
    matched_lenders = [sample_judgment ''1'' ''A'' 0.9, sample_judgment ''2'' ''B'' 0.9],
    unmatched_lenders = [sample_judgment ''3'' ''C'' 0.3],
    analysis_timestamp = 7, total_lenders_evaluated = 3\<rparr>"
  by (subst evaluate_application_results [OF gather_three])
     (simp add: sample_single sort_by_confidence_def sample_judgment_def)

lemma report_fault:
  "evaluate_application sample_loads
     (scripted [ResponseText response_A, CallRaises TransportError, ResponseText response_C])
     7 ''app-1'' () [sample_lender ''1'' ''A'', sample_lender ''2'' ''B'', sample_lender ''3'' ''C''] =
   \<lparr>application_id = ''app-1'',
    matched_lenders = [sample_judgment ''1'' ''A'' 0.9],
    unmatched_lenders = [sample_judgment ''3'' ''C'' 0.3],
    analysis_timestamp = 7, total_lenders_evaluated = 3\<rparr>"
  by (subst evaluate_application_results [OF gather_three])
     (simp add: sample_single sort_by_confidence_def sample_judgment_def)

lemma results_fault:
  "gather_evaluations sample_loads
     (scripted [ResponseText response_A, CallRaises TransportError, ResponseText response_C])
     () [sample_lender ''1'' ''A'', sample_lender ''2'' ''B'', sample_lender ''3'' ''C''] =
   [Inr (sample_judgment ''1'' ''A'' 0.9), Inl (ErrorEvaluating ''B''),
    Inr (sample_judgment ''3'' ''C'' 0.3)]"
  by (subst gather_three) (simp add: sample_single)

lemma report_D:
  "evaluate_application sample_loads (scripted [ResponseText response_D]) 7 ''app-1'' ()
     [sample_lender ''4'' ''D''] =
   \<lparr>application_id = ''app-1'', matched_lenders = [],
    unmatched_lenders = [sample_judgment ''4'' ''D'' 0.4],
    analysis_timestamp = 7, total_lenders_evaluated = 1\<rparr>"
  by (subst evaluate_application_results [OF gather_one])
     (simp add: sample_single sort_by_confidence_def sample_judgment_def)

lemma results_D:
  "gather_evaluations sample_loads (scripted [ResponseText response_D]) ()
     [sample_lender ''4'' ''D''] = [Inr (sample_judgment ''4'' ''D'' 0.4)]"
  by (subst gather_one) (simp add: sample_single)

lemma report_E:
  "evaluate_application sample_loads
     (scripted [ResponseText response_A, ResponseText response_E, ResponseText response_C])
     7 ''app-1'' () [sample_lender ''1'' ''A'', sample_lender ''2'' ''B'', sample_lender ''3'' ''C''] =
   \<lparr>application_id = ''app-1'',
    matched_lenders = [sample_judgment ''1'' ''A'' 0.9],
    unmatched_lenders = [sample_judgment ''3'' ''C'' 0.3],
    analysis_timestamp = 7, total_lenders_evaluated = 3\<rparr>"
  by (subst evaluate_application_results [OF gather_three])
     (simp add: sample_single sort_by_confidence_def sample_judgment_def)

lemma results_E:
  "gather_evaluations sample_loads
     (scripted [ResponseText response_A, ResponseText response_E, ResponseText response_C])
     () [sample_lender ''1'' ''A'', sample_lender ''2'' ''B'', sample_lender ''3'' ''C''] =
   [Inr (sample_judgment ''1'' ''A'' 0.9), Inl (ErrorEvaluating ''B''),
    Inr (sample_judgment ''3'' ''C'' 0.3)]"
  by (subst gather_three) (simp add: sample_single)

lemma report_empty:
  "evaluate_application sample_loads (scripted [ResponseText response_empty]) 7 ''app-1'' ()
     [sample_lender ''5'' ''F''] =
   \<lparr>application_id = ''app-1'', matched_lenders = [],
    unmatched_lenders = [sample_judgment ''5'' ''F'' 0.4],
    analysis_timestamp = 7, total_lenders_evaluated = 1\<rparr>"
  by (subst evaluate_application_results [OF gather_one])
     (simp add: sample_single sort_by_confidence_def sample_judgment_def)

lemma results_empty:
  "gather_evaluations sample_loads (scripted [ResponseText response_empty]) ()
     [sample_lender ''5'' ''F''] = [Inr (sample_judgment ''5'' ''F'' 0.4)]"
  by (subst gather_one) (simp add: sample_single)

section \<open>The claims\<close>

text \<open>
  C1 (partition invariant). In every report that \<^verbatim>\<open>evaluate_application\<close> returns,
  for every application and every list of lenders, each judgment in the matched list has
  a confidence score of at least 0.5 and each judgment in the unmatched list has a
  confidence score below 0.5.
\<close>

theorem partition_invariant:
  "(\<forall>j \<in> set (matched_lenders (evaluate_application loads oracle utcnow app_id app ls)).
      confidence_score j \<ge> 0.5) \<and>
   (\<forall>j \<in> set (unmatched_lenders (evaluate_application loads oracle utcnow app_id app ls)).
      confidence_score j < 0.5)"
  by (auto simp: matched_lenders_eq unmatched_lenders_eq sort_by_confidence_def)

theorem partition_invariant_witness:
  "matched_lenders (evaluate_application sample_loads
     (scripted [ResponseText response_A, ResponseText response_A, ResponseText response_C])
     7 ''app-1'' () [sample_lender ''1'' ''A'', sample_lender ''2'' ''B'', sample_lender ''3'' ''C''])
     = [sample_judgment ''1'' ''A'' 0.9, sample_judgment ''2'' ''B'' 0.9] \<and>
   unmatched_lenders (evaluate_application sample_loads
     (scripted [ResponseText response_A, ResponseText response_A, ResponseText response_C])
     7 ''app-1'' () [sample_lender ''1'' ''A'', sample_lender ''2'' ''B'', sample_lender ''3'' ''C''])
     = [sample_judgment ''3'' ''C'' 0.3] \<and>
   confidence_score (sample_judgment ''1'' ''A'' 0.9) \<ge> 0.5 \<and>
   confidence_score (sample_judgment ''2'' ''B'' 0.9) \<ge> 0.5 \<and>
   confidence_score (sample_judgment ''3'' ''C'' 0.3) < 0.5"
  using partition_invariant [of sample_loads
     "scripted [ResponseText response_A, ResponseText response_A, ResponseText response_C]"
     7 "''app-1''" "()"
     "[sample_lender ''1'' ''A'', sample_lender ''2'' ''B'', sample_lender ''3'' ''C'']"]
  by (simp add: report_tie)

text \<open>
  C2 (confidence-consistency correction). When the payload's confidence is a number
  \<open>r\<close>: if \<^verbatim>\<open>overall_match\<close> is false and \<open>r \<ge> 0.5\<close> the corrected confidence is
  exactly 0.4; if \<^verbatim>\<open>overall_match\<close> is true and \<open>r < 0.5\<close> it is exactly 0.6; otherwise
  it is the payload's confidence unchanged. Every judgment that
  \<^verbatim>\<open>_convert_to_lender_match_dto\<close> builds carries the confidence so corrected, the absent
  fields read as false and 0.5. (What is not a number cannot be compared: no judgment.)
\<close>

theorem confidence_correction:
  "(py_number c = Some r \<longrightarrow>
      adjust_confidence m c =
        Inr (if \<not> truthy m \<and> r \<ge> 0.5 then JFloat 0.4
             else if truthy m \<and> r < 0.5 then JFloat 0.6 else c)) \<and>
   (convert_to_lender_match_dto lid lname analysis = Inr j \<longrightarrow>
      (\<exists>m' c' r'. py_get analysis ''overall_match'' (JBool False) = Inr m' \<and>
         py_get analysis ''confidence_score'' (JFloat 0.5) = Inr c' \<and>
         py_number c' = Some r' \<and>
         confidence_score j =
           (if \<not> truthy m' \<and> r' \<ge> 0.5 then 0.4
            else if truthy m' \<and> r' < 0.5 then 0.6 else r')))"
proof (intro conjI impI)
  assume "py_number c = Some r"
  then show "adjust_confidence m c =
        Inr (if \<not> truthy m \<and> r \<ge> 0.5 then JFloat 0.4
             else if truthy m \<and> r < 0.5 then JFloat 0.6 else c)"
    by (rule adjust_confidence_number)
next
  assume conv: "convert_to_lender_match_dto lid lname analysis = Inr j"
  from convert_Inr [OF conv] obtain m' c' v where
    m: "py_get analysis ''overall_match'' (JBool False) = Inr m'" and
    c: "py_get analysis ''confidence_score'' (JFloat 0.5) = Inr c'" and
    a: "adjust_confidence m' c' = Inr v" and
    v: "validate_confidence_score v = Some (confidence_score j)"
    by blast
  from adjust_confidence_Inr [OF a] obtain r' where
    r: "py_number c' = Some r'" and
    v': "v = (if \<not> truthy m' \<and> r' \<ge> 0.5 then JFloat 0.4
              else if truthy m' \<and> r' < 0.5 then JFloat 0.6 else c')"
    by blast
  from v v' r have "confidence_score j =
           (if \<not> truthy m' \<and> r' \<ge> 0.5 then 0.4
            else if truthy m' \<and> r' < 0.5 then 0.6 else r')"
    by (auto simp: validate_confidence_score_Some split: if_splits)
  with m c r show "\<exists>m' c' r'. py_get analysis ''overall_match'' (JBool False) = Inr m' \<and>
         py_get analysis ''confidence_score'' (JFloat 0.5) = Inr c' \<and>
         py_number c' = Some r' \<and>
         confidence_score j =
           (if \<not> truthy m' \<and> r' \<ge> 0.5 then 0.4
            else if truthy m' \<and> r' < 0.5 then 0.6 else r')"
    by blast
qed

text \<open>The three cases that the specification names: (false, 0.9), (true, 0.1), (true, 0.8).\<close>

theorem confidence_correction_witness:
  "adjust_confidence (JBool False) (JFloat 0.9) = Inr (JFloat 0.4) \<and>
   adjust_confidence (JBool True) (JFloat 0.1) = Inr (JFloat 0.6) \<and>
   adjust_confidence (JBool True) (JFloat 0.8) = Inr (JFloat 0.8) \<and>
   convert_to_lender_match_dto ''1'' ''A'' (verdict False 0.9) =
     Inr (sample_judgment ''1'' ''A'' 0.4) \<and>
   convert_to_lender_match_dto ''1'' ''A'' (verdict True 0.1) =
     Inr (sample_judgment ''1'' ''A'' 0.6) \<and>
   convert_to_lender_match_dto ''1'' ''A'' (verdict True 0.8) =
     Inr (sample_judgment ''1'' ''A'' 0.8) \<and>
   confidence_score (sample_judgment ''1'' ''A'' 0.4) = 0.4"
  using confidence_correction [of "JFloat 0.9" "0.9" "JBool False" "''1''" "''A''"
      "verdict False 0.9" "sample_judgment ''1'' ''A'' 0.4"]
    confidence_correction [of "JFloat 0.1" "0.1" "JBool True" "''1''" "''A''"
      "verdict True 0.1" "sample_judgment ''1'' ''A'' 0.6"]
    confidence_correction [of "JFloat 0.8" "0.8" "JBool True" "''1''" "''A''"
      "verdict True 0.8" "sample_judgment ''1'' ''A'' 0.8"]
  by (simp add: convert_verdict_payload sample_judgment_def)

text \<open>
  C3 (failure isolation). Whatever the lenders' evaluations do, \<^verbatim>\<open>evaluate_application\<close>
  returns a report (it has no failing branch: \<^verbatim>\<open>gather\<close> hands each exception over as
  a value and the loop skips it). The entry of each lender in the gathered results is the
  outcome of its own evaluation alone; the judgments of the two lists together are exactly
  the judgments of the evaluations that returned, so a lender whose evaluation raised is in
  neither list; and \<^verbatim>\<open>total_lenders_evaluated\<close> is the length of the list of lenders.
\<close>

theorem failure_isolation:
  "mset (matched_lenders (evaluate_application loads oracle utcnow app_id app ls) @
         unmatched_lenders (evaluate_application loads oracle utcnow app_id app ls)) =
     mset (returned (gather_evaluations loads oracle app ls)) \<and>
   length (gather_evaluations loads oracle app ls) = length ls \<and>
   (\<forall>i < length ls. gather_evaluations loads oracle app ls ! i =
      evaluate_single_lender loads (oracle i) app (ls ! i)) \<and>
   total_lenders_evaluated (evaluate_application loads oracle utcnow app_id app ls) = length ls"
proof -
  have "total_lenders_evaluated (evaluate_application loads oracle utcnow app_id app ls) =
          length ls"
    by (simp add: evaluate_application_def Let_def split: prod.splits)
  moreover have "mset (matched_lenders (evaluate_application loads oracle utcnow app_id app ls) @
         unmatched_lenders (evaluate_application loads oracle utcnow app_id app ls)) =
     mset (returned (gather_evaluations loads oracle app ls))"
    by (simp add: matched_lenders_eq unmatched_lenders_eq sort_by_confidence_def)
  ultimately show ?thesis
    by (simp add: gather_length gather_nth)
qed

text \<open>Lender B's call raises a network fault while A and C succeed.\<close>

theorem failure_isolation_witness:
  "gather_evaluations sample_loads
     (scripted [ResponseText response_A, CallRaises TransportError, ResponseText response_C])
     () [sample_lender ''1'' ''A'', sample_lender ''2'' ''B'', sample_lender ''3'' ''C''] =
     [Inr (sample_judgment ''1'' ''A'' 0.9), Inl (ErrorEvaluating ''B''),
      Inr (sample_judgment ''3'' ''C'' 0.3)] \<and>
   evaluate_application sample_loads
     (scripted [ResponseText response_A, CallRaises TransportError, ResponseText response_C])
     7 ''app-1'' () [sample_lender ''1'' ''A'', sample_lender ''2'' ''B'', sample_lender ''3'' ''C''] =
     \<lparr>application_id = ''app-1'',
      matched_lenders = [sample_judgment ''1'' ''A'' 0.9],
      unmatched_lenders = [sample_judgment ''3'' ''C'' 0.3],
      analysis_timestamp = 7, total_lenders_evaluated = 3\<rparr> \<and>
   mset [sample_judgment ''1'' ''A'' 0.9, sample_judgment ''3'' ''C'' 0.3] =
     mset (returned [Inr (sample_judgment ''1'' ''A'' 0.9), Inl (ErrorEvaluating ''B''),
       Inr (sample_judgment ''3'' ''C'' 0.3)])"
  using failure_isolation [of sample_loads
     "scripted [ResponseText response_A, CallRaises TransportError, ResponseText response_C]"
     7 "''app-1''" "()"
     "[sample_lender ''1'' ''A'', sample_lender ''2'' ''B'', sample_lender ''3'' ''C'']"]
  by (simp add: report_fault results_fault)




text \<open>
  C5 (repair pass). The specification has one repair pass, which mends at least a
  trailing comma, and one second parse. The code calls a method that the class does not
  have: for a response whose cleaned text is a JSON document but for a comma before the
  closing brace, the strict parse fails, the lookup of \<^verbatim>\<open>_fix_json_issues\<close> raises
  \<^verbatim>\<open>AttributeError\<close>, and the evaluation of the lender fails with "Error evaluating A",
  with no repair and no second parse.
\<close>

theorem repair_pass_missing:
  "clean_response_text response_trailing_comma = response_trailing_comma \<and>
   sample_loads response_trailing_comma = None \<and>
   parse_analysis sample_loads response_trailing_comma = Inl AttributeError \<and>
   evaluate_single_lender sample_loads (scripted [ResponseText response_trailing_comma] 0) ()
     (sample_lender ''1'' ''A'') = Inl (ErrorEvaluating ''A'')"
  by (simp add: sample_eval)

text \<open>
  C6 (sort rule). In every report each of the two lists is in descending order of
  confidence, and the judgments of equal confidence stand in a list in the order which
  they have in the gathered results, which is the order of the list of lenders
  (\<^verbatim>\<open>gather\<close> returns the results in the order of the tasks, whichever finishes first).
\<close>

theorem sort_rule:
  "sorted_wrt (\<lambda>a b. confidence_score a \<ge> confidence_score b)
     (matched_lenders (evaluate_application loads oracle utcnow app_id app ls)) \<and>
   sorted_wrt (\<lambda>a b. confidence_score a \<ge> confidence_score b)
     (unmatched_lenders (evaluate_application loads oracle utcnow app_id app ls)) \<and>
   (\<forall>c. filter (\<lambda>j. confidence_score j = c)
          (matched_lenders (evaluate_application loads oracle utcnow app_id app ls)) =
        filter (\<lambda>j. confidence_score j = c \<and> c \<ge> 0.5)
          (returned (gather_evaluations loads oracle app ls))) \<and>
   (\<forall>c. filter (\<lambda>j. confidence_score j = c)
          (unmatched_lenders (evaluate_application loads oracle utcnow app_id app ls)) =
        filter (\<lambda>j. confidence_score j = c \<and> c < 0.5)
          (returned (gather_evaluations loads oracle app ls)))"
proof -
  have "filter (\<lambda>j. confidence_score j = c) (filter (\<lambda>j. confidence_score j \<ge> 0.5) xs) =
        filter (\<lambda>j. confidence_score j = c \<and> c \<ge> 0.5) xs"
    for c and xs :: "lender_match list"
    by (induction xs) auto
  moreover have
    "filter (\<lambda>j. confidence_score j = c) (filter (\<lambda>j. \<not> confidence_score j \<ge> 0.5) xs) =
        filter (\<lambda>j. confidence_score j = c \<and> c < 0.5) xs"
    for c and xs :: "lender_match list"
    by (induction xs) auto
  ultimately show ?thesis
    by (simp add: matched_lenders_eq unmatched_lenders_eq sort_by_confidence_sorted
        sort_by_confidence_stable)
qed

text \<open>Lenders A, B, C with confidences 0.9, 0.9, 0.3: matched is [A, B], unmatched is [C].\<close>

theorem sort_rule_witness:
  "matched_lenders (evaluate_application sample_loads
     (scripted [ResponseText response_A, ResponseText response_A, ResponseText response_C])
     7 ''app-1'' () [sample_lender ''1'' ''A'', sample_lender ''2'' ''B'', sample_lender ''3'' ''C''])
     = [sample_judgment ''1'' ''A'' 0.9, sample_judgment ''2'' ''B'' 0.9] \<and>
   unmatched_lenders (evaluate_application sample_loads
     (scripted [ResponseText response_A, ResponseText response_A, ResponseText response_C])
     7 ''app-1'' () [sample_lender ''1'' ''A'', sample_lender ''2'' ''B'', sample_lender ''3'' ''C''])
     = [sample_judgment ''3'' ''C'' 0.3] \<and>
   sorted_wrt (\<lambda>a b. confidence_score a \<ge> confidence_score b)
     [sample_judgment ''1'' ''A'' 0.9, sample_judgment ''2'' ''B'' 0.9]"
  using sort_rule [of sample_loads
     "scripted [ResponseText response_A, ResponseText response_A, ResponseText response_C]"
     7 "''app-1''" "()"
     "[sample_lender ''1'' ''A'', sample_lender ''2'' ''B'', sample_lender ''3'' ''C'']"]
  by (simp add: report_tie)

text \<open>
  C7 (the partition agrees with the verdict). When the evaluation of the lender of index
  \<open>i\<close> returns a judgment, that judgment comes from a response text whose payload has
  an \<^verbatim>\<open>overall_match\<close> value (false when the field is absent), and the judgment is in
  the matched list if and only if that value is true, in the unmatched list if and only
  if it is not.
\<close>

theorem partition_agrees_with_verdict:
  assumes "i < length ls"
    and "gather_evaluations loads oracle app ls ! i = Inr j"
  shows "\<exists>t analysis m.
           oracle i app (case key_name (ls ! i) of None \<Rightarrow> ''Unknown Lender'' | Some n \<Rightarrow> n)
             (key_criteria (ls ! i)) = ResponseText t \<and>
           loads (clean_response_text t) = Some analysis \<and>
           py_get analysis ''overall_match'' (JBool False) = Inr m \<and>
           (j \<in> set (matched_lenders (evaluate_application loads oracle utcnow app_id app ls))
              \<longleftrightarrow> truthy m) \<and>
           (j \<in> set (unmatched_lenders (evaluate_application loads oracle utcnow app_id app ls))
              \<longleftrightarrow> \<not> truthy m)"
proof -
  from assms have e: "evaluate_single_lender loads (oracle i) app (ls ! i) = Inr j"
    by (simp add: gather_nth)
  from evaluate_single_lender_Inr [OF e] obtain t analysis where
    t: "oracle i app (case key_name (ls ! i) of None \<Rightarrow> ''Unknown Lender'' | Some n \<Rightarrow> n)
          (key_criteria (ls ! i)) = ResponseText t" and
    l: "loads (clean_response_text t) = Some analysis" and
    c: "convert_to_lender_match_dto (case key_id (ls ! i) of None \<Rightarrow> [] | Some i \<Rightarrow> i)
          (case key_name (ls ! i) of None \<Rightarrow> ''Unknown Lender'' | Some n \<Rightarrow> n) analysis = Inr j"
    by blast
  from convert_verdict [OF c] obtain m where
    m: "py_get analysis ''overall_match'' (JBool False) = Inr m" and
    v: "confidence_score j \<ge> 0.5 \<longleftrightarrow> truthy m"
    by blast
  from assms have "Inr j \<in> set (gather_evaluations loads oracle app ls)"
    by (metis gather_length nth_mem)
  with v have "(j \<in> set (matched_lenders (evaluate_application loads oracle utcnow app_id app ls))
              \<longleftrightarrow> truthy m) \<and>
           (j \<in> set (unmatched_lenders (evaluate_application loads oracle utcnow app_id app ls))
              \<longleftrightarrow> \<not> truthy m)"
    by (auto simp: in_matched_iff in_unmatched_iff)
  with t l m show ?thesis by blast
qed

text \<open>A payload with the verdict false and the confidence 0.9: corrected to 0.4, unmatched.\<close>

theorem partition_agrees_with_verdict_witness:
  "gather_evaluations sample_loads (scripted [ResponseText response_D]) ()
     [sample_lender ''4'' ''D''] ! 0 = Inr (sample_judgment ''4'' ''D'' 0.4) \<and>
   sample_loads (clean_response_text response_D) = Some (verdict False 0.9) \<and>
   py_get (verdict False 0.9) ''overall_match'' (JBool False) = Inr (JBool False) \<and>
   sample_judgment ''4'' ''D'' 0.4 \<in> set (unmatched_lenders
     (evaluate_application sample_loads (scripted [ResponseText response_D]) 7 ''app-1'' ()
        [sample_lender ''4'' ''D''])) \<and>
   sample_judgment ''4'' ''D'' 0.4 \<notin> set (matched_lenders
     (evaluate_application sample_loads (scripted [ResponseText response_D]) 7 ''app-1'' ()
        [sample_lender ''4'' ''D'']))"
  using partition_agrees_with_verdict [of 0 "[sample_lender ''4'' ''D'']" sample_loads
      "scripted [ResponseText response_D]" "()" "sample_judgment ''4'' ''D'' 0.4" 7 "''app-1''"]
  by (simp add: report_D results_D clean_D sample_loads_simps verdict_def py_get_def)

text \<open>
  C8 (fence stripping), as the specification states it: for every JSON payload text, the
  payload inside a fenced block, with or without a language tag, and the payload alone
  give the same parsed result. The code removes the tag only when it is
  \<^verbatim>\<open>json\<close>: behind the fence \<^verbatim>\<open>```python\<close> the tag stays in the cleaned text,
  which then does not parse, while the payload alone does.
\<close>

theorem fence_stripping_counterexample:
  "clean_response_text (lit ''```python'' @ [10] @ lit ''{}'' @ [10] @ lit ''```'') =
     lit ''python'' @ [10] @ lit ''{}'' \<and>
   clean_response_text (lit ''{}'') = lit ''{}'' \<and>
   parse_analysis sample_loads (lit ''```python'' @ [10] @ lit ''{}'' @ [10] @ lit ''```'') =
     Inl AttributeError \<and>
   parse_analysis sample_loads (lit ''{}'') = Inr (JObject [])"
proof -
  have sp: "isspace 10" "\<not> isspace 96" "\<not> isspace 112" "\<not> isspace 125"
    by (simp_all add: isspace_def)
  have 1: "clean_response_text (lit ''```python'' @ [10] @ lit ''{}'' @ [10] @ lit ''```'') =
     lit ''python'' @ [10] @ lit ''{}''"
    by (simp add: clean_response_text_def Let_def strip_def lstrip_def rstrip_def sp
        startswith_def endswith_def)
  have 2: "clean_response_text (lit ''{}'') = lit ''{}''"
    using clean_empty by (simp add: response_empty_def)
  have 3: "sample_loads (lit ''python'' @ [10] @ lit ''{}'') = None"
    by (simp add: sample_loads_def response_A_def response_C_def response_D_def
      response_E_def response_empty_def)
  have 4: "sample_loads (lit ''{}'') = Some (JObject [])"
    using sample_loads_simps(5) by (simp add: response_empty_def)
  from 1 2 3 4 show ?thesis
    by (simp add: parse_analysis_def Let_def)
qed

text \<open>
  C8 as amended. Take a payload whose stripped text neither begins nor ends with a fence
  (no JSON text does), an opening fence that is bare or carries exactly the tag
  \<^verbatim>\<open>json\<close>, and any white space, also none, between the fences and the payload and
  around the block (a line feed, a carriage return and a line feed); behind a bare fence
  the text must not go on with the letters \<^verbatim>\<open>json\<close>. Then the block is cleaned to the
  same text as the payload alone, the stripped payload, and both give the same parsed
  result. In general the cleaned text of a block is the stripped text between its two
  fences, less the four letters \<^verbatim>\<open>json\<close> when it begins with them: any other tag
  stays in the cleaned text, and of a tag that begins with \<^verbatim>\<open>json\<close> the rest stays.
\<close>

theorem fence_stripping:
  "(list_all isspace ws0 \<and> list_all isspace ws3 \<longrightarrow>
      clean_response_text (ws0 @ lit ''```'' @ rest @ lit ''```'' @ ws3) =
        strip (if startswith rest (lit ''json'') then drop 4 rest else rest)) \<and>
   (list_all isspace ws0 \<and> list_all isspace ws1 \<and> list_all isspace ws2 \<and>
    list_all isspace ws3 \<and>
    (tag = lit ''json'' \<or> (tag = [] \<and> \<not> startswith (ws1 @ p) (lit ''json''))) \<and>
    \<not> startswith (strip p) (lit ''```'') \<and> \<not> endswith (strip p) (lit ''```'') \<longrightarrow>
      clean_response_text (ws0 @ lit ''```'' @ tag @ ws1 @ p @ ws2 @ lit ''```'' @ ws3) =
        clean_response_text p \<and>
      clean_response_text p = strip p \<and>
      parse_analysis loads (ws0 @ lit ''```'' @ tag @ ws1 @ p @ ws2 @ lit ''```'' @ ws3) =
        parse_analysis loads p)"
proof (intro conjI impI)
  assume "list_all isspace ws0 \<and> list_all isspace ws3"
  then show "clean_response_text (ws0 @ lit ''```'' @ rest @ lit ''```'' @ ws3) =
        strip (if startswith rest (lit ''json'') then drop 4 rest else rest)"
    using fenced_block by blast
next
  assume h: "list_all isspace ws0 \<and> list_all isspace ws1 \<and> list_all isspace ws2 \<and>
    list_all isspace ws3 \<and>
    (tag = lit ''json'' \<or> (tag = [] \<and> \<not> startswith (ws1 @ p) (lit ''json''))) \<and>
    \<not> startswith (strip p) (lit ''```'') \<and> \<not> endswith (strip p) (lit ''```'')"
  then have w: "clean_response_text
      (ws0 @ lit ''```'' @ tag @ ws1 @ p @ ws2 @ lit ''```'' @ ws3) = strip p"
    by (intro fenced_payload) blast+
  from h have u: "clean_response_text p = strip p"
    by (intro clean_unfenced) blast+
  from w u show "clean_response_text
      (ws0 @ lit ''```'' @ tag @ ws1 @ p @ ws2 @ lit ''```'' @ ws3) = clean_response_text p"
    by simp
  from u show "clean_response_text p = strip p" .
  from w u show "parse_analysis loads
      (ws0 @ lit ''```'' @ tag @ ws1 @ p @ ws2 @ lit ''```'' @ ws3) = parse_analysis loads p"
    by (simp add: parse_analysis_def)
qed

text \<open>
  The fence \<^verbatim>\<open>```json\<close> with no white space at all, with carriage returns and line
  feeds, a bare fence with white space around the block, and the tag \<^verbatim>\<open>jsonc\<close>, of
  which the letter c stays.
\<close>

theorem fence_stripping_witness:
  "clean_response_text (lit ''```json{}```'') = lit ''{}'' \<and>
   clean_response_text (lit ''```json'' @ [13, 10] @ lit ''{}'' @ [13, 10] @ lit ''```'') =
     lit ''{}'' \<and>
   clean_response_text ([32] @ lit ''```'' @ [10] @ lit ''{}'' @ [10] @ lit ''```'' @ [10]) =
     lit ''{}'' \<and>
   clean_response_text (lit ''{}'') = lit ''{}'' \<and>
   clean_response_text (lit ''```jsonc'' @ [10] @ lit ''{}'' @ [10] @ lit ''```'') =
     lit ''c'' @ [10] @ lit ''{}'' \<and>
   parse_analysis sample_loads (lit ''```json{}```'') = Inr (JObject []) \<and>
   parse_analysis sample_loads (lit ''{}'') = Inr (JObject [])"
proof -
  have sp: "isspace 10" "isspace 13" "isspace 32" "\<not> isspace 99" "\<not> isspace 123"
    "\<not> isspace 125"
    by (simp_all add: isspace_def)
  have s: "strip (lit ''{}'') = lit ''{}''"
    by (rule strip_fixed) (simp add: sp)
  have sc: "strip (lit ''c'' @ [10] @ lit ''{}'' @ [10]) = lit ''c'' @ [10] @ lit ''{}''"
    using strip_space_right [OF sp(1), of "lit ''c'' @ [10] @ lit ''{}''"]
      strip_fixed [of "lit ''c'' @ [10] @ lit ''{}''"]
    by (simp add: sp)
  have h: "\<not> startswith (strip (lit ''{}'')) (lit ''```'')"
    "\<not> endswith (strip (lit ''{}'')) (lit ''```'')"
    unfolding s by (simp_all add: startswith_def endswith_def)
  have j: "\<not> startswith ([10] @ lit ''{}'') (lit ''json'')"
    by (simp add: startswith_def)
  have p: "parse_analysis sample_loads (lit ''{}'') = Inr (JObject [])"
    using sample_loads_simps(5) clean_empty
    by (simp add: parse_analysis_def response_empty_def)
  show ?thesis
    using fence_stripping [of "[]" "[]" "lit ''jsonc'' @ [10] @ lit ''{}'' @ [10]"
        "[]" "[]" "lit ''json''" "lit ''{}''" sample_loads]
      fence_stripping [of "[]" "[]" "[]" "[13, 10]" "[13, 10]" "lit ''json''" "lit ''{}''"
        sample_loads]
      fence_stripping [of "[32]" "[10]" "[]" "[10]" "[10]" "[]" "lit ''{}''" sample_loads]
      h j s sc p
    by (simp add: sp startswith_def)
qed

text \<open>
  C9 (confidence within [0, 1]). Every judgment of a report has a confidence score between
  0 and 1. When the payload of the lender of index \<open>i\<close> has a corrected confidence
  outside that interval, the evaluation of that lender raises: its entry in the gathered
  results is an exception, which the loop skips.
\<close>

theorem confidence_in_unit_interval:
  "(\<forall>j \<in> set (matched_lenders (evaluate_application loads oracle utcnow app_id app ls) @
               unmatched_lenders (evaluate_application loads oracle utcnow app_id app ls)).
      0 \<le> confidence_score j \<and> confidence_score j \<le> 1) \<and>
   (i < length ls \<and>
    oracle i app (case key_name (ls ! i) of None \<Rightarrow> ''Unknown Lender'' | Some n \<Rightarrow> n)
      (key_criteria (ls ! i)) = ResponseText t \<and>
    loads (clean_response_text t) = Some analysis \<and>
    py_get analysis ''overall_match'' (JBool False) = Inr m \<and>
    py_get analysis ''confidence_score'' (JFloat 0.5) = Inr c \<and>
    adjust_confidence m c = Inr v \<and> py_number v = Some x \<and> (x < 0 \<or> 1 < x) \<longrightarrow>
      (\<exists>e. gather_evaluations loads oracle app ls ! i = Inl e))"
proof (intro conjI ballI impI)
  fix j
  assume "j \<in> set (matched_lenders (evaluate_application loads oracle utcnow app_id app ls) @
               unmatched_lenders (evaluate_application loads oracle utcnow app_id app ls))"
  then have "Inr j \<in> set (gather_evaluations loads oracle app ls)"
    by (auto simp: in_matched_iff in_unmatched_iff)
  from gather_Inr_bounds [OF this]
  show "0 \<le> confidence_score j" "confidence_score j \<le> 1"
    by simp_all
next
  assume h: "i < length ls \<and>
    oracle i app (case key_name (ls ! i) of None \<Rightarrow> ''Unknown Lender'' | Some n \<Rightarrow> n)
      (key_criteria (ls ! i)) = ResponseText t \<and>
    loads (clean_response_text t) = Some analysis \<and>
    py_get analysis ''overall_match'' (JBool False) = Inr m \<and>
    py_get analysis ''confidence_score'' (JFloat 0.5) = Inr c \<and>
    adjust_confidence m c = Inr v \<and> py_number v = Some x \<and> (x < 0 \<or> 1 < x)"
  show "\<exists>e. gather_evaluations loads oracle app ls ! i = Inl e"
  proof (cases "gather_evaluations loads oracle app ls ! i")
    case (Inl e)
    then show ?thesis by blast
  next
    case (Inr j)
    with h have "evaluate_single_lender loads (oracle i) app (ls ! i) = Inr j"
      by (simp add: gather_nth)
    from evaluate_single_lender_Inr [OF this] h obtain lid lname where
      "convert_to_lender_match_dto lid lname analysis = Inr j"
      by auto
    from convert_Inr [OF this] h have "validate_confidence_score v = Some (confidence_score j)"
      by auto
    with h have False
      by (auto simp: validate_confidence_score_Some)
    then show ?thesis ..
  qed
qed

text \<open>Lender B answers with the verdict true and the confidence 1.5.\<close>

theorem confidence_in_unit_interval_witness:
  "adjust_confidence (JBool True) (JFloat 1.5) = Inr (JFloat 1.5) \<and>
   (\<exists>e. gather_evaluations sample_loads
     (scripted [ResponseText response_A, ResponseText response_E, ResponseText response_C])
     () [sample_lender ''1'' ''A'', sample_lender ''2'' ''B'', sample_lender ''3'' ''C''] ! 1 = Inl e) \<and>
   matched_lenders (evaluate_application sample_loads
     (scripted [ResponseText response_A, ResponseText response_E, ResponseText response_C])
     7 ''app-1'' () [sample_lender ''1'' ''A'', sample_lender ''2'' ''B'', sample_lender ''3'' ''C''])
     = [sample_judgment ''1'' ''A'' 0.9] \<and>
   unmatched_lenders (evaluate_application sample_loads
     (scripted [ResponseText response_A, ResponseText response_E, ResponseText response_C])
     7 ''app-1'' () [sample_lender ''1'' ''A'', sample_lender ''2'' ''B'', sample_lender ''3'' ''C''])
     = [sample_judgment ''3'' ''C'' 0.3] \<and>
   0 \<le> confidence_score (sample_judgment ''1'' ''A'' 0.9) \<and>
   confidence_score (sample_judgment ''1'' ''A'' 0.9) \<le> 1"
proof -
  have o: "scripted [ResponseText response_A, ResponseText response_E, ResponseText response_C]
      1 ()
      (case key_name ([sample_lender ''1'' ''A'', sample_lender ''2'' ''B'',
         sample_lender ''3'' ''C''] ! 1) of None \<Rightarrow> ''Unknown Lender'' | Some n \<Rightarrow> n)
      (key_criteria ([sample_lender ''1'' ''A'', sample_lender ''2'' ''B'',
         sample_lender ''3'' ''C''] ! 1)) = ResponseText response_E"
    by (simp add: scripted_def)
  have a: "adjust_confidence (JBool True) (JFloat 1.5) = Inr (JFloat 1.5)"
    by (simp add: adjust_confidence_def py_lt_def)
  show ?thesis
    using confidence_in_unit_interval [of sample_loads
       "scripted [ResponseText response_A, ResponseText response_E, ResponseText response_C]"
       7 "''app-1''" "()"
       "[sample_lender ''1'' ''A'', sample_lender ''2'' ''B'', sample_lender ''3'' ''C'']"
       1 response_E "verdict True 1.5" "JBool True" "JFloat 1.5" "JFloat 1.5" "1.5"] o a
    by (simp add: report_E results_E clean_E sample_loads_simps verdict_def py_get_def)
qed

text \<open>
  C10 (both verdict fields absent). For a payload that is an object without the keys
  \<^verbatim>\<open>overall_match\<close> and \<^verbatim>\<open>confidence_score\<close>: the two reads give false and 0.5, the
  correction gives 0.4, and a judgment built from the payload has the confidence 0.4. If
  the conversion raises, it raises too whatever values the two fields are given, so the
  absence is not the cause. In a report the judgment of such a payload is in the
  unmatched list and not in the matched list.
\<close>

theorem absent_verdict_fields:
  assumes "map_of kvs ''overall_match'' = None" and "map_of kvs ''confidence_score'' = None"
  shows "py_get (JObject kvs) ''overall_match'' (JBool False) = Inr (JBool False) \<and>
         py_get (JObject kvs) ''confidence_score'' (JFloat 0.5) = Inr (JFloat 0.5) \<and>
         adjust_confidence (JBool False) (JFloat 0.5) = Inr (JFloat 0.4) \<and>
         (convert_to_lender_match_dto lid lname (JObject kvs) = Inr j \<longrightarrow>
            confidence_score j = 0.4) \<and>
         (convert_to_lender_match_dto lid lname (JObject kvs) = Inl e \<longrightarrow>
            (\<exists>e'. convert_to_lender_match_dto lid lname
               (JObject ((''overall_match'', m) # (''confidence_score'', c) # kvs)) = Inl e')) \<and>
         (i < length ls \<and>
          oracle i app (case key_name (ls ! i) of None \<Rightarrow> ''Unknown Lender'' | Some n \<Rightarrow> n)
            (key_criteria (ls ! i)) = ResponseText t \<and>
          loads (clean_response_text t) = Some (JObject kvs) \<and>
          gather_evaluations loads oracle app ls ! i = Inr j' \<longrightarrow>
            confidence_score j' = 0.4 \<and>
            j' \<in> set (unmatched_lenders (evaluate_application loads oracle utcnow app_id app ls)) \<and>
            j' \<notin> set (matched_lenders (evaluate_application loads oracle utcnow app_id app ls)))"
proof (intro conjI impI)
  show "py_get (JObject kvs) ''overall_match'' (JBool False) = Inr (JBool False)"
    using assms by (simp add: py_get_def)
  show "py_get (JObject kvs) ''confidence_score'' (JFloat 0.5) = Inr (JFloat 0.5)"
    using assms by (simp add: py_get_def)
  show "adjust_confidence (JBool False) (JFloat 0.5) = Inr (JFloat 0.4)"
    by (simp add: adjust_confidence_def py_ge_def)
  show "confidence_score j = 0.4"
    if "convert_to_lender_match_dto lid lname (JObject kvs) = Inr j"
    using convert_absent_confidence [OF assms that] .
  show "\<exists>e'. convert_to_lender_match_dto lid lname
               (JObject ((''overall_match'', m) # (''confidence_score'', c) # kvs)) = Inl e'"
    if "convert_to_lender_match_dto lid lname (JObject kvs) = Inl e"
    using convert_absent_fails [OF assms that] .
next
  assume h: "i < length ls \<and>
          oracle i app (case key_name (ls ! i) of None \<Rightarrow> ''Unknown Lender'' | Some n \<Rightarrow> n)
            (key_criteria (ls ! i)) = ResponseText t \<and>
          loads (clean_response_text t) = Some (JObject kvs) \<and>
          gather_evaluations loads oracle app ls ! i = Inr j'"
  then have i: "i < length ls" and g: "gather_evaluations loads oracle app ls ! i = Inr j'"
    by simp_all
  from i g have "evaluate_single_lender loads (oracle i) app (ls ! i) = Inr j'"
    by (simp add: gather_nth)
  from evaluate_single_lender_Inr [OF this] h obtain lid' lname' where
    "convert_to_lender_match_dto lid' lname' (JObject kvs) = Inr j'"
    by auto
  from convert_absent_confidence [OF assms this] have c: "confidence_score j' = 0.4" .
  from i g have "Inr j' \<in> set (gather_evaluations loads oracle app ls)"
    by (metis gather_length nth_mem)
  with c show "confidence_score j' = 0.4"
    "j' \<in> set (unmatched_lenders (evaluate_application loads oracle utcnow app_id app ls))"
    "j' \<notin> set (matched_lenders (evaluate_application loads oracle utcnow app_id app ls))"
    by (simp_all add: in_matched_iff in_unmatched_iff)
qed

text \<open>The payload \<^verbatim>\<open>{}\<close>.\<close>

theorem absent_verdict_fields_witness:
  "map_of ([] :: (string \<times> json) list) ''overall_match'' = None \<and>
   map_of ([] :: (string \<times> json) list) ''confidence_score'' = None \<and>
   sample_loads (clean_response_text response_empty) = Some (JObject []) \<and>
   convert_to_lender_match_dto ''5'' ''F'' (JObject []) = Inr (sample_judgment ''5'' ''F'' 0.4) \<and>
   confidence_score (sample_judgment ''5'' ''F'' 0.4) = 0.4 \<and>
   evaluate_application sample_loads (scripted [ResponseText response_empty]) 7 ''app-1'' ()
     [sample_lender ''5'' ''F''] =
     \<lparr>application_id = ''app-1'', matched_lenders = [],
      unmatched_lenders = [sample_judgment ''5'' ''F'' 0.4],
      analysis_timestamp = 7, total_lenders_evaluated = 1\<rparr>"
  using absent_verdict_fields [of "[]" "''5''" "''F''" "sample_judgment ''5'' ''F'' 0.4"
      ValidationError "JBool True" "JFloat 0.9" 0 "[sample_lender ''5'' ''F'']"
      "scripted [ResponseText response_empty]" "()" response_empty sample_loads
      "sample_judgment ''5'' ''F'' 0.4" 7 "''app-1''"]
  by (simp add: report_empty results_empty clean_empty sample_loads_simps convert_empty_payload
      sample_judgment_def)

end
